theory Spec2Isabelle
  imports Main "HOL-Library.Word" "HOL-Library.Sublist" "HOL-Library.AList"
begin

section \<open>String utilities (ext/common/Utils/StrIntUtils.cpp)\<close>

text \<open>
  Exceptions of the code base are values. Each carries the message it was constructed
  with.
\<close>

datatype exception =
    ArgumentException string
  | SpawnException string
  | IOException string

text \<open>
  \<^verbatim>\<open>fillInMiddle(unsigned int max, prefix, middle, postfix)\<close>. The parameter \<open>max\<close> is a
  32-bit unsigned integer; the sizes of the strings are \<open>size_t\<close> values, which are the
  lengths of the strings. The comparison and the subtraction are carried out in
  \<open>size_t\<close>, the difference is then stored in the 32-bit variable \<open>fillSize\<close>.
\<close>

definition fillInMiddle :: "32 word \<Rightarrow> string \<Rightarrow> string \<Rightarrow> string \<Rightarrow> exception + string" where
  "fillInMiddle max_len pre mid post =
     (if unat max_len \<le> length pre + length post then
        Inl (ArgumentException ''Impossible to build string with the given size constraint.'')
      else
        let fillSize = (word_of_nat (unat max_len - (length pre + length post)) :: 32 word) in
        if unat fillSize > length mid then
          Inr (pre @ mid @ post)
        else
          Inr (pre @ take (unat fillSize) mid @ post))"

section \<open>The application pool (ext/common/ApplicationPool/Pool.h)\<close>

subsection \<open>Options and the environment of one acquisition\<close>

record PoolOptions =
  appRoot :: string
  restartDir :: string
  statThrottleRate :: nat
  useGlobalQueue :: bool
  maxRequests :: nat

text \<open>
  What the collaborators of the pool answer during one pass through the acquisition
  algorithm. \<open>cstat_stat path throttle\<close> is the return code of
  \<^verbatim>\<open>cstat.stat(path, &buf, throttle)\<close> (zero on success),
  \<open>fileChanged path throttle\<close> is the answer of
  \<^verbatim>\<open>fileChangeChecker.changed(path, throttle)\<close>, \<open>spawn_result\<close> is what
  \<^verbatim>\<open>spawnManager->spawn(options)\<close> does (\<open>Inl\<close> the \<open>what()\<close> of the exception it
  throws, \<open>Inr\<close> the pid of the process it returns), \<open>time_now\<close> is \<^verbatim>\<open>time(NULL)\<close>, and
  \<open>connect_result\<close> is what \<^verbatim>\<open>process->connect(...)\<close> does (\<open>None\<close> when it returns a
  session, \<open>Some cause\<close> when it throws).
\<close>

record Env =
  cstat_stat :: "string \<Rightarrow> nat \<Rightarrow> int"
  fileChanged :: "string \<Rightarrow> nat \<Rightarrow> bool"
  spawn_result :: "string + nat"
  time_now :: int
  connect_result :: "string option"

subsection \<open>Restart detection\<close>

definition restartDirectory :: "string \<Rightarrow> PoolOptions \<Rightarrow> string" where
  "restartDirectory root options =
     (if restartDir options = [] then root @ ''/tmp''
      else if hd (restartDir options) = CHR ''/'' then restartDir options
      else root @ ''/'' @ restartDir options)"

definition needsRestart :: "Env \<Rightarrow> string \<Rightarrow> PoolOptions \<Rightarrow> bool" where
  "needsRestart env root options =
     (let dir = restartDirectory root options;
          alwaysRestartFile = dir @ ''/always_restart.txt'';
          restartFile = dir @ ''/restart.txt''
      in cstat_stat env alwaysRestartFile (statThrottleRate options) = 0 \<or>
         fileChanged env restartFile (statThrottleRate options))"

subsection \<open>Workers, groups and the shared data\<close>

text \<open>
  A \<open>ProcessInfo\<close> object is shared, through \<open>shared_ptr\<close>, between the list of its
  group and the list of inactive processes. The model keeps the objects in a store
  (\<open>heap\<close>) addressed by the identity of the object (\<open>wid\<close>), and both lists hold
  identities. The two fields read from the process handle, \<open>getAppRoot()\<close> and
  \<open>getPid()\<close>, are kept in the object. The unsigned counters are natural numbers: the
  model describes the pool as long as no counter reaches \<open>2^32\<close>.

  The stored \<open>iterator\<close> and \<open>ia_iterator\<close> of a worker point at the list nodes that
  hold the worker, and a list iterator stays valid until its own node is erased. So
  \<open>erase(processInfo->iterator)\<close> removes the node that holds the worker
  (\<open>remove1\<close>), and the fields themselves need no representation.
\<close>

type_synonym wid = nat

record ProcessInfo =
  getAppRoot :: string
  getPid :: nat
  startTime :: int
  lastUsed :: int
  sessions :: nat
  processed :: nat

record Group =
  processes :: "wid list"
  group_size :: nat
  group_maxRequests :: nat

text \<open>
  What the pool does to its collaborators is recorded in a trace: \<open>NotifyAll\<close> is
  \<open>activeOrMaxChanged.notify_all()\<close>, \<open>NotifyCleaner\<close> is
  \<open>cleanerThreadSleeper.notify_one()\<close>, \<open>Reload r\<close> is \<open>spawnManager->reload(r)\<close>.
\<close>

datatype event = NotifyAll | NotifyCleaner | Reload string

text \<open>
  \<open>SharedData\<close> together with the fields of \<open>Pool\<close> that the operations use. The map
  \<open>groups\<close> is an association list with \<open>map_of\<close> as \<open>find\<close>, \<open>AList.update\<close> as
  assignment through \<open>operator[]\<close> and \<open>AList.delete\<close> as \<open>erase\<close>.
\<close>

record Pool =
  groups :: "(string \<times> Group) list"
  pool_max :: nat
  count :: nat
  active :: nat
  maxPerApp :: nat
  inactiveApps :: "wid list"
  maxIdleTime :: nat
  waitingOnGlobalQueue :: nat
  heap :: "wid \<Rightarrow> ProcessInfo"
  nextId :: wid
  trace :: "event list"

definition DEFAULT_MAX_IDLE_TIME :: nat where "DEFAULT_MAX_IDLE_TIME = 120"
definition DEFAULT_MAX_POOL_SIZE :: nat where "DEFAULT_MAX_POOL_SIZE = 20"
definition DEFAULT_MAX_INSTANCES_PER_APP :: nat where "DEFAULT_MAX_INSTANCES_PER_APP = 0"
definition MAX_GET_ATTEMPTS :: "32 word" where "MAX_GET_ATTEMPTS = 10"

definition emptyProcessInfo :: ProcessInfo where
  "emptyProcessInfo =
     \<lparr>getAppRoot = [], getPid = 0, startTime = 0, lastUsed = 0, sessions = 0, processed = 0\<rparr>"

definition initialize :: Pool where
  "initialize =
     \<lparr>groups = [], pool_max = DEFAULT_MAX_POOL_SIZE, count = 0, active = 0,
      maxPerApp = DEFAULT_MAX_INSTANCES_PER_APP, inactiveApps = [],
      maxIdleTime = DEFAULT_MAX_IDLE_TIME, waitingOnGlobalQueue = 0,
      heap = (\<lambda>_. emptyProcessInfo), nextId = 0, trace = []\<rparr>"

text \<open>
  \<open>new ProcessInfo()\<close> followed by the assignment of the spawned process: a fresh
  object whose \<open>startTime\<close> is the current time.
\<close>

definition newProcessInfo :: "Env \<Rightarrow> string \<Rightarrow> nat \<Rightarrow> ProcessInfo" where
  "newProcessInfo env root pid =
     \<lparr>getAppRoot = root, getPid = pid, startTime = time_now env, lastUsed = 0,
      sessions = 0, processed = 0\<rparr>"

definition allocate :: "ProcessInfo \<Rightarrow> Pool \<Rightarrow> wid \<times> Pool" where
  "allocate info s = (nextId s, s\<lparr>heap := (heap s)(nextId s := info), nextId := nextId s + 1\<rparr>)"

text \<open>
  A \<open>weak_ptr\<close> to a worker can be locked as long as some list still holds the worker.
\<close>

definition alive :: "Pool \<Rightarrow> wid \<Rightarrow> bool" where
  "alive s w \<longleftrightarrow>
     w \<in> set (inactiveApps s) \<or> list_ex (\<lambda>kg. w \<in> set (processes (snd kg))) (groups s)"

subsection \<open>List iterators\<close>

text \<open>
  A \<open>std::list\<close> is a ring of nodes closed by a sentinel, which is \<open>end()\<close>. An
  iterator is a position: \<open>0\<close> is \<open>begin()\<close> and the length of the list is \<open>end()\<close>.
  Incrementing \<open>end()\<close> gives \<open>begin()\<close> and decrementing \<open>begin()\<close> gives \<open>end()\<close>, as
  in the ring. When the node at position \<open>p\<close> is erased, an iterator to another node
  stays on its node, whose position moves down by one when it was behind \<open>p\<close>.
\<close>

definition it_next :: "'a list \<Rightarrow> nat \<Rightarrow> nat" where
  "it_next xs i = (if i = length xs then 0 else i + 1)"

definition it_prev :: "'a list \<Rightarrow> nat \<Rightarrow> nat" where
  "it_prev xs i = (if i = 0 then length xs else i - 1)"

definition it_after_erase :: "nat \<Rightarrow> nat \<Rightarrow> nat" where
  "it_after_erase p i = (if p < i then i - 1 else i)"

definition erase_at :: "nat \<Rightarrow> 'a list \<Rightarrow> 'a list" where
  "erase_at i xs = take i xs @ drop (Suc i) xs"

definition position :: "'a \<Rightarrow> 'a list \<Rightarrow> nat" where
  "position x xs = length (takeWhile (\<lambda>y. y \<noteq> x) xs)"

subsection \<open>The acquisition algorithm: \<open>spawnOrUseExisting\<close>\<close>

text \<open>
  The loop that purges a group when the application needs a restart (lines 449 to
  459). \<open>procs\<close> is the list \<open>group_it->second->processes\<close>, \<open>list_it\<close> the loop
  iterator.
\<close>

function purge_loop :: "wid list \<Rightarrow> nat \<Rightarrow> Pool \<Rightarrow> wid list \<times> Pool" where
  "purge_loop procs list_it s =
     (if list_it < length procs then
        let processInfo = procs ! list_it;
            s1 = (if sessions (heap s processInfo) = 0
                  then s\<lparr>inactiveApps := remove1 processInfo (inactiveApps s)\<rparr>
                  else s\<lparr>active := active s - 1\<rparr>);
            list_it1 = it_prev procs list_it;
            procs1 = remove1 processInfo procs;
            list_it2 = it_after_erase (position processInfo procs) list_it1;
            s2 = s1\<lparr>count := count s1 - 1\<rparr>
        in purge_loop procs1 (it_next procs1 list_it2) s2
      else (procs, s))"
  by pat_completeness auto
termination
  by (relation "measure (\<lambda>(procs, list_it, s). length procs)")
     (simp_all add: length_remove1)

text \<open>
  The restart branch (lines 445 to 466, when \<open>needsRestart\<close> answered yes): purge the
  group if there is one, ask the spawn manager to reload, wake up the waiters.
\<close>

definition restartPurge :: "string \<Rightarrow> Pool \<Rightarrow> Pool" where
  "restartPurge root s =
     (let s1 = (case map_of (groups s) root of
                  None \<Rightarrow> s
                | Some grp \<Rightarrow>
                    let (procs, s') = purge_loop (processes grp) 0 s
                    in s'\<lparr>groups := AList.delete root (groups s')\<rparr>)
      in s1\<lparr>trace := trace s1 @ [Reload root, NotifyAll]\<rparr>)"

text \<open>The common tail: \<open>lastUsed = time(NULL); sessions++\<close>.\<close>

definition acquire :: "Env \<Rightarrow> wid \<Rightarrow> Pool \<Rightarrow> Pool" where
  "acquire env w s =
     s\<lparr>heap := (heap s)(w := (heap s w)\<lparr>lastUsed := time_now env,
                                        sessions := sessions (heap s w) + 1\<rparr>)\<rparr>"

text \<open>
  The search for the least busy process (lines 491 to 499): \<open>smallest\<close> starts at the
  front and is replaced only by a process with strictly fewer sessions.
\<close>

fun smallest_loop :: "(wid \<Rightarrow> ProcessInfo) \<Rightarrow> wid \<Rightarrow> wid list \<Rightarrow> wid" where
  "smallest_loop h smallest [] = smallest"
| "smallest_loop h smallest (it # rest) =
     smallest_loop h (if sessions (h it) < sessions (h smallest) then it else smallest) rest"

definition spawnMessage :: "string \<Rightarrow> string \<Rightarrow> string" where
  "spawnMessage root what =
     ''Cannot spawn application '' @ [CHR 0x27] @ root @ [CHR 0x27] @ '': '' @ what"

text \<open>
  How one pass through \<open>spawnOrUseExisting\<close> ends: it returns a worker, it waits on
  \<open>activeOrMaxChanged\<close> (which releases the lock; after the wake-up the function starts
  again from its beginning), or it throws. \<open>Undefined\<close> stands for an access that C++
  leaves undefined: the front of an empty list, or a group that \<open>operator[]\<close> had to
  create.
\<close>

datatype outcome =
    Selected wid Pool
  | Waiting Pool
  | WaitingOnGlobalQueue Pool
  | Thrown exception Pool
  | Undefined

text \<open>The branch for an existing group (lines 468 to 521).\<close>

definition useExistingGroup :: "Env \<Rightarrow> PoolOptions \<Rightarrow> Group \<Rightarrow> Pool \<Rightarrow> outcome" where
  "useExistingGroup env options grp s =
     (let root = appRoot options in
      case processes grp of
        [] \<Rightarrow> Undefined
      | front # rest \<Rightarrow>
          if sessions (heap s front) = 0 then
            let group1 = grp\<lparr>processes := rest @ [front]\<rparr>;
                s1 = s\<lparr>groups := AList.update root group1 (groups s),
                       inactiveApps := remove1 front (inactiveApps s),
                       active := active s + 1,
                       trace := trace s @ [NotifyAll]\<rparr>
            in Selected front (acquire env front s1)
          else if count s \<ge> pool_max s \<or>
                  (maxPerApp s \<noteq> 0 \<and> group_size grp \<ge> maxPerApp s) then
            if useGlobalQueue options then
              WaitingOnGlobalQueue (s\<lparr>waitingOnGlobalQueue := waitingOnGlobalQueue s + 1\<rparr>)
            else
              let smallest = smallest_loop (heap s) front rest;
                  group1 = grp\<lparr>processes := remove1 smallest (processes grp) @ [smallest]\<rparr>;
                  s1 = s\<lparr>groups := AList.update root group1 (groups s)\<rparr>
              in Selected smallest (acquire env smallest s1)
          else
            (case spawn_result env of
               Inl what \<Rightarrow> Thrown (SpawnException (spawnMessage root what)) s
             | Inr pid \<Rightarrow>
                 let (processInfo, s1) = allocate (newProcessInfo env root pid) s;
                     group1 = grp\<lparr>processes := processes grp @ [processInfo],
                                   group_size := group_size grp + 1\<rparr>;
                     s2 = s1\<lparr>groups := AList.update root group1 (groups s1),
                             count := count s1 + 1,
                             active := active s1 + 1,
                             trace := trace s1 @ [NotifyAll]\<rparr>
                 in Selected processInfo (acquire env processInfo s2)))"

text \<open>
  The eviction of the least recently used inactive process (lines 528 to 538).
\<close>

definition evictInactive :: "Pool \<Rightarrow> Pool option" where
  "evictInactive s =
     (case inactiveApps s of
        [] \<Rightarrow> None
      | processInfo # rest \<Rightarrow>
          let root = getAppRoot (heap s processInfo) in
          (case map_of (groups s) root of
             None \<Rightarrow> None
           | Some grp \<Rightarrow>
               let procs = remove1 processInfo (processes grp);
                   groups1 = (if procs = [] then AList.delete root (groups s)
                              else AList.update root
                                     (grp\<lparr>processes := procs,
                                            group_size := group_size grp - 1\<rparr>) (groups s))
               in Some (s\<lparr>inactiveApps := rest, groups := groups1, count := count s - 1\<rparr>)))"

text \<open>The branch for an application without a group (lines 522 to 560).\<close>

definition createGroup :: "Env \<Rightarrow> PoolOptions \<Rightarrow> Pool \<Rightarrow> outcome" where
  "createGroup env options s =
     (let root = appRoot options in
      if active s \<ge> pool_max s then Waiting s
      else
        case (if count s = pool_max s then evictInactive s else Some s) of
          None \<Rightarrow> Undefined
        | Some s1 \<Rightarrow>
            (case spawn_result env of
               Inl what \<Rightarrow> Thrown (SpawnException (spawnMessage root what)) s1
             | Inr pid \<Rightarrow>
                 let (processInfo, s2) = allocate (newProcessInfo env root pid) s1;
                     grp = \<lparr>processes = [processInfo], group_size = 1,
                              group_maxRequests = maxRequests options\<rparr>;
                     s3 = s2\<lparr>groups := AList.update root grp (groups s2),
                             count := count s2 + 1,
                             active := active s2 + 1,
                             trace := trace s2 @ [NotifyAll]\<rparr>
                 in Selected processInfo (acquire env processInfo s3)))"

definition spawnOrUseExisting :: "Env \<Rightarrow> PoolOptions \<Rightarrow> Pool \<Rightarrow> outcome" where
  "spawnOrUseExisting env options s =
     (let root = appRoot options;
          group_it = map_of (groups s) root;
          (group_it1, s1) = (if needsRestart env root options
                             then (None, restartPurge root s)
                             else (group_it, s))
      in case group_it1 of
           Some grp \<Rightarrow> useExistingGroup env options grp s1
         | None \<Rightarrow> createGroup env options s1)"

subsection \<open>\<open>get\<close>\<close>

text \<open>
  The handler of a failed \<open>connect\<close> (lines 689 to 699). \<open>group\<close> is the group that
  \<open>spawnOrUseExisting\<close> returned, the one of \<open>options.appRoot\<close>.
\<close>

definition connectFailed :: "string \<Rightarrow> wid \<Rightarrow> Pool \<Rightarrow> Pool option" where
  "connectFailed root processInfo s =
     (case map_of (groups s) root of
        None \<Rightarrow> None
      | Some grp \<Rightarrow>
          let info = (heap s processInfo)\<lparr>sessions := sessions (heap s processInfo) - 1\<rparr>;
              procs = remove1 processInfo (processes grp);
              group1 = grp\<lparr>processes := procs, group_size := group_size grp - 1\<rparr>;
              groups1 = (if procs = [] then AList.delete root (groups s)
                         else AList.update root group1 (groups s))
          in Some (s\<lparr>heap := (heap s)(processInfo := info),
                     groups := groups1,
                     count := count s - 1,
                     active := active s - 1,
                     trace := trace s @ [NotifyAll]\<rparr>))"

definition connectMessage :: "string \<Rightarrow> string \<Rightarrow> string" where
  "connectMessage root cause =
     ''Cannot connect to an existing application instance for '' @ [CHR 0x27] @ root @
     [CHR 0x27] @ '': '' @ cause"

text \<open>
  How \<open>get\<close> ends: with a session on a worker, with an exception, or blocked inside
  \<open>spawnOrUseExisting\<close> during the given attempt.
\<close>

datatype get_result =
    Session wid Pool
  | Blocked "32 word" Pool
  | BlockedOnGlobalQueue "32 word" Pool
  | GetThrown exception Pool
  | GetUndefined

text \<open>
  The loop of \<open>get\<close>. \<open>attempt0\<close> is the value of \<open>attempt\<close> when an iteration starts;
  \<open>envs n\<close> is the environment during attempt \<open>n\<close>.
\<close>

function get_loop :: "(32 word \<Rightarrow> Env) \<Rightarrow> PoolOptions \<Rightarrow> 32 word \<Rightarrow> Pool \<Rightarrow> get_result" where
  "get_loop envs options attempt0 s =
     (let attempt = attempt0 + 1 in
      case spawnOrUseExisting (envs attempt) options s of
        Undefined \<Rightarrow> GetUndefined
      | Waiting s1 \<Rightarrow> Blocked attempt s1
      | WaitingOnGlobalQueue s1 \<Rightarrow> BlockedOnGlobalQueue attempt s1
      | Thrown e s1 \<Rightarrow> GetThrown e s1
      | Selected processInfo s1 \<Rightarrow>
          (case connect_result (envs attempt) of
             None \<Rightarrow> Session processInfo s1
           | Some cause \<Rightarrow>
               (case connectFailed (appRoot options) processInfo s1 of
                  None \<Rightarrow> GetUndefined
                | Some s2 \<Rightarrow>
                    if attempt = MAX_GET_ATTEMPTS then
                      GetThrown (IOException (connectMessage (appRoot options) cause)) s2
                    else get_loop envs options attempt s2)))"
  by pat_completeness auto
termination
proof (relation "measure (\<lambda>(envs, options, attempt0, s). unat (9 - attempt0))")
  show "wf (measure (\<lambda>(envs, options, attempt0, s). unat (9 - attempt0)))" by simp
next
  fix envs :: "32 word \<Rightarrow> Env" and options :: PoolOptions and attempt0 x :: "32 word"
    and s x2 :: Pool
  assume x: "x = attempt0 + 1" and ne: "x \<noteq> MAX_GET_ATTEMPTS"
  from x ne have nz: "9 - attempt0 \<noteq> 0"
    by (auto simp: MAX_GET_ATTEMPTS_def)
  have pos: "0 < unat (9 - attempt0)"
    using nz by (simp add: unat_gt_0)
  have "8 - attempt0 = 9 - attempt0 - 1" by simp
  then have e1: "unat (8 - attempt0) = unat (9 - attempt0) - 1"
    using unat_minus_one [OF nz] by simp
  have e2: "9 - x = 8 - attempt0"
    using x by simp
  have "unat (9 - x) = unat (9 - attempt0) - 1"
    by (simp only: e2 e1)
  with pos have "unat (9 - x) < unat (9 - attempt0)"
    by linarith
  then show "((envs, options, x, x2), envs, options, attempt0, s)
      \<in> measure (\<lambda>(envs, options, attempt0, s). unat (9 - attempt0))"
    by simp
qed

definition get :: "(32 word \<Rightarrow> Env) \<Rightarrow> PoolOptions \<Rightarrow> Pool \<Rightarrow> get_result" where
  "get envs options s = get_loop envs options 0 s"

text \<open>
  The wake-up from the wait on the global queue (line 488), after which
  \<open>spawnOrUseExisting\<close> starts again within the same attempt.
\<close>

definition leaveGlobalQueue :: "Pool \<Rightarrow> Pool" where
  "leaveGlobalQueue s = s\<lparr>waitingOnGlobalQueue := waitingOnGlobalQueue s - 1\<rparr>"

subsection \<open>The session close callback\<close>

definition sessionClose :: "int \<Rightarrow> wid \<Rightarrow> Pool \<Rightarrow> Pool" where
  "sessionClose now processInfo s =
     (if \<not> alive s processInfo then s
      else
        let root = getAppRoot (heap s processInfo) in
        case map_of (groups s) root of
          None \<Rightarrow> s
        | Some grp \<Rightarrow>
            let info1 = (heap s processInfo)\<lparr>processed := processed (heap s processInfo) + 1\<rparr> in
            if group_maxRequests grp > 0 \<and> processed info1 \<ge> group_maxRequests grp then
              let procs = remove1 processInfo (processes grp);
                  group1 = grp\<lparr>processes := procs, group_size := group_size grp - 1\<rparr>;
                  groups1 = (if procs = [] then AList.delete root (groups s)
                             else AList.update root group1 (groups s))
              in s\<lparr>heap := (heap s)(processInfo := info1),
                   groups := groups1,
                   count := count s - 1,
                   active := active s - 1,
                   trace := trace s @ [NotifyAll]\<rparr>
            else
              let info2 = info1\<lparr>lastUsed := now, sessions := sessions info1 - 1\<rparr> in
              if sessions info2 = 0 then
                let group1 = grp\<lparr>processes := processInfo # remove1 processInfo (processes grp)\<rparr>
                in s\<lparr>heap := (heap s)(processInfo := info2),
                     groups := AList.update root group1 (groups s),
                     inactiveApps := inactiveApps s @ [processInfo],
                     active := active s - 1,
                     trace := trace s @ [NotifyAll]\<rparr>
              else s\<lparr>heap := (heap s)(processInfo := info2)\<rparr>)"

subsection \<open>The cleaner thread\<close>

text \<open>
  One pass of the cleaner thread over the inactive list after its timed wait ran out
  (lines 389 to 415). \<open>it\<close> is the loop iterator.
\<close>

lemma length_erase_at: "i < length xs \<Longrightarrow> length (erase_at i xs) = length xs - 1"
  by (simp add: erase_at_def)

lemma it_next_after_erase:
  "i < length xs \<Longrightarrow> it_next (erase_at i xs) (it_after_erase i (it_prev xs i)) = i"
  by (cases i) (simp_all add: it_next_def it_after_erase_def it_prev_def length_erase_at)

lemma it_next_inside: "i < length xs \<Longrightarrow> it_next xs i = i + 1"
  by (simp add: it_next_def)

function cleaner_loop :: "int \<Rightarrow> nat \<Rightarrow> Pool \<Rightarrow> Pool option" where
  "cleaner_loop now it s =
     (if it < length (inactiveApps s) then
        let processInfo = inactiveApps s ! it;
            root = getAppRoot (heap s processInfo)
        in case map_of (groups s) root of
             None \<Rightarrow> None
           | Some grp \<Rightarrow>
               if maxIdleTime s > 0 \<and>
                  now - lastUsed (heap s processInfo) > int (maxIdleTime s) then
                 let procs = remove1 processInfo (processes grp);
                     prev = it_prev (inactiveApps s) it;
                     inactive1 = erase_at it (inactiveApps s);
                     it1 = it_after_erase it prev;
                     group1 = grp\<lparr>processes := procs, group_size := group_size grp - 1\<rparr>;
                     groups1 = (if procs = [] then AList.delete root (groups s)
                                else AList.update root group1 (groups s));
                     s1 = s\<lparr>groups := groups1, inactiveApps := inactive1,
                             count := count s - 1\<rparr>
                 in cleaner_loop now (it_next inactive1 it1) s1
               else
                 let s1 = (if processes grp = [] then s\<lparr>groups := AList.delete root (groups s)\<rparr>
                           else s)
                 in cleaner_loop now (it_next (inactiveApps s1) it) s1
      else Some s)"
  by pat_completeness auto
termination
  apply (relation "measure (\<lambda>(now, it, s). length (inactiveApps s) - it)")
    apply simp
   apply (simp add: it_next_after_erase length_erase_at)
  apply (simp add: it_next_inside)
  done

definition cleanerPass :: "int \<Rightarrow> Pool \<Rightarrow> Pool option" where
  "cleanerPass now s = cleaner_loop now 0 s"

subsection \<open>The other public operations\<close>

definition clear :: "Pool \<Rightarrow> Pool" where
  "clear s = s\<lparr>groups := [], inactiveApps := [], count := 0, active := 0,
               trace := trace s @ [NotifyAll]\<rparr>"

definition setMaxIdleTime :: "nat \<Rightarrow> Pool \<Rightarrow> Pool" where
  "setMaxIdleTime seconds s = s\<lparr>maxIdleTime := seconds, trace := trace s @ [NotifyCleaner]\<rparr>"

definition setMax :: "nat \<Rightarrow> Pool \<Rightarrow> Pool" where
  "setMax n s = s\<lparr>pool_max := n, trace := trace s @ [NotifyAll]\<rparr>"

definition setMaxPerApp :: "nat \<Rightarrow> Pool \<Rightarrow> Pool" where
  "setMaxPerApp n s = s\<lparr>maxPerApp := n, trace := trace s @ [NotifyAll]\<rparr>"

subsection \<open>The state invariants\<close>

text \<open>All workers of the pool, group after group.\<close>

definition workers :: "(string \<times> Group) list \<Rightarrow> wid list" where
  "workers gs = concat (map (\<lambda>kg. processes (snd kg)) gs)"

text \<open>
  Within a list of processes the idle ones come first: a process with sessions is never
  followed by a process without.
\<close>

definition idle_before_busy :: "(wid \<Rightarrow> ProcessInfo) \<Rightarrow> wid list \<Rightarrow> bool" where
  "idle_before_busy h ps =
     sorted_wrt (\<lambda>a b. sessions (h a) = 0 \<or> 0 < sessions (h b)) ps"

text \<open>
  The invariants that the specification lists for the shared state: \<open>count\<close> is the sum
  of the sizes of the groups; the inactive list has \<open>count - active\<close> elements and
  \<open>active \<le> count\<close>; the list of every group is nonempty and has its idle processes
  first; a worker of the pool is in the inactive list exactly when it has no session.
\<close>

definition pool_invariants :: "Pool \<Rightarrow> bool" where
  "pool_invariants s \<longleftrightarrow>
     count s = sum_list (map (\<lambda>kg. group_size (snd kg)) (groups s)) \<and>
     length (inactiveApps s) = count s - active s \<and>
     active s \<le> count s \<and>
     list_all (\<lambda>kg. processes (snd kg) \<noteq> [] \<and> idle_before_busy (heap s) (processes (snd kg)))
       (groups s) \<and>
     list_all (\<lambda>w. (w \<in> set (inactiveApps s)) = (sessions (heap s w) = 0))
       (workers (groups s)) \<and>
     list_all (\<lambda>w. w \<in> set (workers (groups s))) (inactiveApps s)"

text \<open>
  The assertions of \<open>verifyState\<close> (lines 268 to 309). Its inner loop never advances
  \<open>prev_lit\<close>, so each process is compared with the first process of its list.
\<close>

definition verifyState :: "Pool \<Rightarrow> bool" where
  "verifyState s \<longleftrightarrow>
     list_all (\<lambda>kg. group_size (snd kg) \<le> count s \<and>
                    processes (snd kg) \<noteq> [] \<and>
                    list_all (\<lambda>lit. sessions (heap s (hd (processes (snd kg)))) = 0 \<or>
                                    0 < sessions (heap s lit))
                      (tl (processes (snd kg))))
       (groups s) \<and>
     sum_list (map (\<lambda>kg. group_size (snd kg)) (groups s)) = count s \<and>
     active s \<le> count s \<and>
     length (inactiveApps s) = count s - active s"

text \<open>
  The inductive invariant of the pool, which adds what the data structure relies on: the
  keys of the map are unique, no worker is in two lists or twice in one, the size of a
  group is the length of its list, a worker sits in the group of its own application
  root and has processed fewer requests than the limit of its group, and the identities
  in use are below the next fresh one.
\<close>

definition group_ok :: "(wid \<Rightarrow> ProcessInfo) \<Rightarrow> string \<times> Group \<Rightarrow> bool" where
  "group_ok h kg \<longleftrightarrow>
     processes (snd kg) \<noteq> [] \<and>
     group_size (snd kg) = length (processes (snd kg)) \<and>
     list_all (\<lambda>w. getAppRoot (h w) = fst kg \<and>
                   (group_maxRequests (snd kg) = 0 \<or>
                    processed (h w) < group_maxRequests (snd kg)))
       (processes (snd kg)) \<and>
     idle_before_busy h (processes (snd kg))"

definition inv_core ::
  "(string \<times> Group) list \<Rightarrow> wid list \<Rightarrow> nat \<Rightarrow> nat \<Rightarrow> (wid \<Rightarrow> ProcessInfo) \<Rightarrow> wid \<Rightarrow> bool" where
  "inv_core gs inactive cnt act h next_id \<longleftrightarrow>
     distinct (map fst gs) \<and>
     distinct (workers gs) \<and>
     list_all (group_ok h) gs \<and>
     distinct inactive \<and>
     set inactive = {w \<in> set (workers gs). sessions (h w) = 0} \<and>
     cnt = length (workers gs) \<and>
     length inactive + act = cnt \<and>
     list_all (\<lambda>w. w < next_id) (workers gs)"

definition pool_inv :: "Pool \<Rightarrow> bool" where
  "pool_inv s \<longleftrightarrow>
     inv_core (groups s) (inactiveApps s) (count s) (active s) (heap s) (nextId s)"

section \<open>Properties of the string utilities\<close>

lemma fillSize_unat:
  assumes "length pre + length post < unat (m :: 32 word)"
  shows "unat (word_of_nat (unat m - (length pre + length post)) :: 32 word)
         = unat m - (length pre + length post)"
proof -
  have "unat m < 2 ^ 32"
    using unsigned_less [of m, where 'a = nat] by simp
  then have "unat m - (length pre + length post) < 2 ^ LENGTH(32)"
    by simp
  then show ?thesis
    by (simp add: unat_of_nat)
qed

text \<open>
  Claim C10. \<open>fillInMiddle\<close> throws \<open>ArgumentException\<close> exactly when
  \<open>max \<le> prefix.size() + postfix.size()\<close>. Otherwise it returns the prefix, then the
  first \<open>max - prefix.size() - postfix.size()\<close> characters of the middle (all of it when
  it is shorter), then the postfix; the result is at most \<open>max\<close> characters long, starts
  with the prefix and ends with the postfix.
\<close>

theorem fillInMiddle_spec:
  "((\<exists>msg. fillInMiddle m pre mid post = Inl (ArgumentException msg))
      \<longleftrightarrow> unat m \<le> length pre + length post) \<and>
   (isl (fillInMiddle m pre mid post)
      \<longleftrightarrow> unat m \<le> length pre + length post) \<and>
   (length pre + length post < unat m \<longrightarrow>
      (\<exists>r. fillInMiddle m pre mid post = Inr r \<and>
           r = pre @ take (unat m - length pre - length post) mid @ post \<and>
           length r \<le> unat m \<and> prefix pre r \<and> suffix post r))"
proof -
  have thrown: "unat m \<le> length pre + length post \<Longrightarrow>
      fillInMiddle m pre mid post =
        Inl (ArgumentException ''Impossible to build string with the given size constraint.'')"
    by (simp add: fillInMiddle_def)
  have returned: "fillInMiddle m pre mid post =
        Inr (pre @ take (unat m - length pre - length post) mid @ post)"
    if "length pre + length post < unat m"
    using that fillSize_unat [OF that]
    by (simp add: fillInMiddle_def Let_def)
  show ?thesis
  proof (cases "unat m \<le> length pre + length post")
    case True
    then show ?thesis using thrown by simp
  next
    case False
    then have lt: "length pre + length post < unat m" by simp
    have "suffix post
            (pre @ take (unat m - length pre - length post) mid @ post)"
      by (metis append.assoc suffixI)
    with lt returned [OF lt] show ?thesis by auto
  qed
qed

theorem fillInMiddle_spec_witness:
  "fillInMiddle 6 ''ab'' ''cdefgh'' ''yz'' = Inr ''abcdyz'' \<and>
   fillInMiddle 4 ''ab'' ''cdefgh'' ''yz'' =
     Inl (ArgumentException ''Impossible to build string with the given size constraint.'')"
proof -
  have "fillInMiddle 6 ''ab'' ''cdefgh'' ''yz'' = Inr ''abcdyz''"
    using fillInMiddle_spec [of 6 "''ab''" "''cdefgh''" "''yz''"] by simp
  moreover have "fillInMiddle 4 ''ab'' ''cdefgh'' ''yz'' =
     Inl (ArgumentException ''Impossible to build string with the given size constraint.'')"
    by (simp add: fillInMiddle_def)
  ultimately show ?thesis by simp
qed

section \<open>Properties of restart detection\<close>

text \<open>
  Claim C8. The restart directory is \<open>appRoot + "/tmp"\<close> when \<open>restartDir\<close> is empty,
  \<open>restartDir\<close> itself when it starts with a slash, and \<open>appRoot + "/" + restartDir\<close>
  otherwise; the application needs a restart if and only if the throttled \<open>stat\<close> of
  \<open>always_restart.txt\<close> in that directory succeeds or the change checker reports that
  \<open>restart.txt\<close> in that directory has changed.
\<close>

theorem needsRestart_spec:
  "(restartDir options = [] \<longrightarrow> restartDirectory root options = root @ ''/tmp'') \<and>
   (restartDir options \<noteq> [] \<and> hd (restartDir options) = CHR ''/'' \<longrightarrow>
      restartDirectory root options = restartDir options) \<and>
   (restartDir options \<noteq> [] \<and> hd (restartDir options) \<noteq> CHR ''/'' \<longrightarrow>
      restartDirectory root options = root @ ''/'' @ restartDir options) \<and>
   (needsRestart env root options \<longleftrightarrow>
      cstat_stat env (restartDirectory root options @ ''/always_restart.txt'')
        (statThrottleRate options) = 0 \<or>
      fileChanged env (restartDirectory root options @ ''/restart.txt'')
        (statThrottleRate options))"
  by (simp add: restartDirectory_def needsRestart_def Let_def)

theorem needsRestart_spec_witness:
  "restartDirectory ''/app'' \<lparr>appRoot = ''/app'', restartDir = [], statThrottleRate = 0,
      useGlobalQueue = False, maxRequests = 0\<rparr> = ''/app/tmp'' \<and>
   restartDirectory ''/app'' \<lparr>appRoot = ''/app'', restartDir = ''/var/r'', statThrottleRate = 0,
      useGlobalQueue = False, maxRequests = 0\<rparr> = ''/var/r'' \<and>
   restartDirectory ''/app'' \<lparr>appRoot = ''/app'', restartDir = ''r'', statThrottleRate = 0,
      useGlobalQueue = False, maxRequests = 0\<rparr> = ''/app/r'' \<and>
   needsRestart
     \<lparr>cstat_stat = (\<lambda>path throttle. if path = ''/app/tmp/always_restart.txt'' then 0 else - 1),
      fileChanged = (\<lambda>path throttle. False), spawn_result = Inr 1, time_now = 0,
      connect_result = None\<rparr>
     ''/app'' \<lparr>appRoot = ''/app'', restartDir = [], statThrottleRate = 0,
      useGlobalQueue = False, maxRequests = 0\<rparr>"
  using
    needsRestart_spec [of "\<lparr>appRoot = ''/app'', restartDir = [], statThrottleRate = 0,
        useGlobalQueue = False, maxRequests = 0\<rparr>" "''/app''"
      "\<lparr>cstat_stat = (\<lambda>path throttle. if path = ''/app/tmp/always_restart.txt'' then 0 else - 1),
        fileChanged = (\<lambda>path throttle. False), spawn_result = Inr 1, time_now = 0,
        connect_result = None\<rparr>"]
    needsRestart_spec [of "\<lparr>appRoot = ''/app'', restartDir = ''/var/r'', statThrottleRate = 0,
        useGlobalQueue = False, maxRequests = 0\<rparr>" "''/app''"]
    needsRestart_spec [of "\<lparr>appRoot = ''/app'', restartDir = ''r'', statThrottleRate = 0,
        useGlobalQueue = False, maxRequests = 0\<rparr>" "''/app''"]
  by simp

end
